theory Spec2Isabelle
  imports Main
begin

section \<open>Python strings\<close>

text \<open>
  A Python \<open>str\<close> is modelled as a \<open>string\<close>; a \<open>char\<close> stands for a code point below
  256. \<open>isspace\<close> lists the code points of that range for which \<open>str.isspace\<close> holds: they are
  the characters removed by \<open>str.strip()\<close> and matched by the regular expression \<open>\s\<close>.
\<close>

definition isspace :: "char \<Rightarrow> bool" where
  "isspace c = (c \<in> set [CHR 0x09, CHR 0x0A, CHR 0x0B, CHR 0x0C, CHR 0x0D,
                          CHR 0x1C, CHR 0x1D, CHR 0x1E, CHR 0x1F, CHR 0x20,
                          CHR 0x85, CHR 0xA0])"

text \<open>\<open>s.strip()\<close>: leading and trailing whitespace removed.\<close>

definition strip :: "string \<Rightarrow> string" where
  "strip s = rev (dropWhile isspace (rev (dropWhile isspace s)))"

text \<open>
  \<open>s.split(sep)\<close> for a one-character separator: the text is scanned from the left, \<open>cur\<close>
  holds the piece being read (reversed); every separator closes a piece, also an empty one,
  and the end of the text closes the last piece.
\<close>

fun split_from :: "char \<Rightarrow> string \<Rightarrow> string \<Rightarrow> string list" where
  "split_from sep cur [] = [rev cur]"
| "split_from sep cur (c # cs) =
     (if c = sep then rev cur # split_from sep [] cs else split_from sep (c # cur) cs)"

definition split :: "string \<Rightarrow> char \<Rightarrow> string list" where
  "split s sep = split_from sep [] s"

text \<open>\<open>sep.join(parts)\<close>.\<close>

fun join :: "string \<Rightarrow> string list \<Rightarrow> string" where
  "join sep [] = []"
| "join sep [p] = p"
| "join sep (p # q # ps) = p @ sep @ join sep (q # ps)"

text \<open>\<open>sub in s\<close>: \<open>sub\<close> occurs in \<open>s\<close> as a contiguous substring.\<close>

fun startswith :: "string \<Rightarrow> string \<Rightarrow> bool" where
  "startswith s [] = True"
| "startswith [] (p # ps) = False"
| "startswith (c # cs) (p # ps) = (c = p \<and> startswith cs ps)"

fun contains :: "string \<Rightarrow> string \<Rightarrow> bool" where
  "contains [] sub = (sub = [])"
| "contains (c # cs) sub = (startswith (c # cs) sub \<or> contains cs sub)"

definition endswith :: "string \<Rightarrow> string \<Rightarrow> bool" where
  "endswith s suffix = startswith (rev s) (rev suffix)"

section \<open>The parsed document\<close>

text \<open>
  The tree BeautifulSoup builds: a \<open>Tag\<close> has a name, its attributes and its contents; the
  text between tags is a \<open>NavigableString\<close>. The \<open>class\<close> attribute is multi-valued: the
  parser stores it as the list of its whitespace-separated tokens (\<open>None\<close> when the tag has
  no such attribute). The other attributes map a name to a string.
\<close>

datatype node =
    Tag (name: string) (class_attr: "string list option") (attrs: "(string \<times> string) list")
        (contents: "node list")
  | NavigableString string

text \<open>\<open>tag.descendants\<close>: every node below \<open>tag\<close>, in document order.\<close>

fun descendants :: "node \<Rightarrow> node list" where
  "descendants (Tag n c a ks) = concat (map (\<lambda>k. k # descendants k) ks)"
| "descendants (NavigableString s) = []"

text \<open>\<open>tag.text\<close>: the strings below the tag, concatenated.\<close>

fun text_of :: "node \<Rightarrow> string" where
  "text_of (Tag n c a ks) = concat (map text_of ks)"
| "text_of (NavigableString s) = s"

text \<open>
  How \<open>find\<close> compares \<open>attrs={'class': value}\<close> with a tag: the value has to equal one of
  the class tokens, or the whole attribute (the tokens joined by one space).
\<close>

fun class_matches :: "string \<Rightarrow> node \<Rightarrow> bool" where
  "class_matches v (Tag n (Some toks) a ks) = (v \<in> set toks \<or> join '' '' toks = v)"
| "class_matches v (Tag n None a ks) = False"
| "class_matches v (NavigableString s) = False"

fun has_name :: "string \<Rightarrow> node \<Rightarrow> bool" where
  "has_name nm (Tag n c a ks) = (n = nm)"
| "has_name nm (NavigableString s) = False"

text \<open>
  \<open>tag.find(attrs={'class': v})\<close>, \<open>tag.find(nm)\<close>, \<open>tag.find(nm, attrs={'class': v})\<close> and
  \<open>tag.find_all(nm)\<close>: \<open>find\<close> returns the first descendant that matches or \<open>None\<close>,
  \<open>find_all\<close> all of them in document order.
\<close>

definition find_class :: "node \<Rightarrow> string \<Rightarrow> node option" where
  "find_class t v = find (class_matches v) (descendants t)"

definition find_name :: "node \<Rightarrow> string \<Rightarrow> node option" where
  "find_name t nm = find (has_name nm) (descendants t)"

definition find_name_class :: "node \<Rightarrow> string \<Rightarrow> string \<Rightarrow> node option" where
  "find_name_class t nm v = find (\<lambda>k. has_name nm k \<and> class_matches v k) (descendants t)"

definition find_all :: "node \<Rightarrow> string \<Rightarrow> node list" where
  "find_all t nm = filter (has_name nm) (descendants t)"

text \<open>
  \<open>tag.select("div[class*=marker]")\<close>: the descendants named \<open>div\<close> that have a class
  attribute whose value, the tokens joined by one space, contains \<open>marker\<close> as a substring.
\<close>

fun class_contains :: "string \<Rightarrow> node \<Rightarrow> bool" where
  "class_contains marker (Tag n (Some toks) a ks) = contains (join '' '' toks) marker"
| "class_contains marker (Tag n None a ks) = False"
| "class_contains marker (NavigableString s) = False"

definition select_div :: "node \<Rightarrow> string \<Rightarrow> node list" where
  "select_div t marker = filter (\<lambda>k. has_name ''div'' k \<and> class_contains marker k) (descendants t)"

section \<open>Errors\<close>

text \<open>
  The exceptions the program can raise: \<open>xs[0]\<close> on an empty list is an \<open>IndexError\<close>, an
  attribute read on \<open>None\<close> an \<open>AttributeError\<close> (with the attribute's name), \<open>None[...]\<close>
  a \<open>TypeError\<close>, a missing attribute of a tag a \<open>KeyError\<close> (with the key), a text
  \<open>strptime\<close> rejects a \<open>ValueError\<close>, and a failed download a \<open>RequestException\<close>.
\<close>

datatype error =
    IndexError
  | AttributeError string
  | TypeError
  | KeyError string
  | ValueError
  | RequestException

section \<open>The list fields\<close>

definition get_author_list :: "node \<Rightarrow> error + string list" where
  "get_author_list item =
     (case select_div item ''paper-author'' of
        [] \<Rightarrow> Inl IndexError
      | author_div # _ \<Rightarrow>
          (case find_name_class author_div ''span'' ''field-content'' of
             None \<Rightarrow> Inl (AttributeError ''text'')
           | Some sp \<Rightarrow> Inr (map strip (split (text_of sp) CHR '',''))))"

definition get_topics_list :: "node \<Rightarrow> error + string list" where
  "get_topics_list item =
     (case select_div item ''paper-topics'' of
        [] \<Rightarrow> Inl IndexError
      | topic_div # _ \<Rightarrow>
          (case find_name_class topic_div ''span'' ''field-content'' of
             None \<Rightarrow> Inl (AttributeError ''text'')
           | Some sp \<Rightarrow> Inr (map strip (split (text_of sp) CHR '',''))))"

definition get_abstract :: "node \<Rightarrow> error + string" where
  "get_abstract item =
     (case select_div item ''paper-abstract'' of
        [] \<Rightarrow> Inl IndexError
      | d # _ \<Rightarrow> Inr (strip (text_of d)))"

section \<open>Dates\<close>

definition one_of :: "string \<Rightarrow> char \<Rightarrow> bool" where
  "one_of cs c = (c \<in> set cs)"

definition isdigit :: "char \<Rightarrow> bool" where
  "isdigit = one_of ''0123456789''"

definition digit_value :: "char \<Rightarrow> nat option" where
  "digit_value c =
     map_of [(CHR ''0'', 0), (CHR ''1'', 1), (CHR ''2'', 2), (CHR ''3'', 3), (CHR ''4'', 4),
             (CHR ''5'', 5), (CHR ''6'', 6), (CHR ''7'', 7), (CHR ''8'', 8), (CHR ''9'', 9)] c"

text \<open>\<open>int(s)\<close> for a text of decimal digits with whitespace around it; \<open>None\<close> is its ValueError.\<close>

fun digits_value :: "nat \<Rightarrow> string \<Rightarrow> nat option" where
  "digits_value n [] = Some n"
| "digits_value n (c # cs) =
     (case digit_value c of None \<Rightarrow> None | Some d \<Rightarrow> digits_value (10 * n + d) cs)"

definition int_of_str :: "string \<Rightarrow> nat option" where
  "int_of_str s = (case strip s of [] \<Rightarrow> None | c # cs \<Rightarrow> digits_value 0 (c # cs))"

text \<open>ASCII lower case; the month names are matched ignoring case.\<close>

definition lower_chr :: "char \<Rightarrow> char" where
  "lower_chr c =
     (case map_of (zip ''ABCDEFGHIJKLMNOPQRSTUVWXYZ'' ''abcdefghijklmnopqrstuvwxyz'') c of
        None \<Rightarrow> c
      | Some l \<Rightarrow> l)"

definition lower :: "string \<Rightarrow> string" where
  "lower s = map lower_chr s"

definition ignore_case :: "char \<Rightarrow> char \<Rightarrow> bool" where
  "ignore_case p c = (lower_chr c = p)"

subsection \<open>The regular expression of \<open>strptime\<close>\<close>

text \<open>
  \<open>strptime\<close> turns its format into a regular expression and matches the text against it.
  The expressions it builds are sequences of two kinds of pieces: a group, which is a list
  of alternatives tried in order, each a sequence of character classes; and \<open>\s+\<close>, which
  every run of whitespace in the format becomes.
\<close>

datatype piece = Group "(char \<Rightarrow> bool) list list" | Whitespace

text \<open>One alternative at the start of the text: the matched text and what follows it.\<close>

fun match_classes :: "(char \<Rightarrow> bool) list \<Rightarrow> string \<Rightarrow> (string \<times> string) option" where
  "match_classes [] s = Some ([], s)"
| "match_classes (p # ps) [] = None"
| "match_classes (p # ps) (c # cs) =
     (if p c then (case match_classes ps cs of None \<Rightarrow> None | Some (m, r) \<Rightarrow> Some (c # m, r))
      else None)"

fun first_some :: "'a option list \<Rightarrow> 'a option" where
  "first_some [] = None"
| "first_some (None # xs) = first_some xs"
| "first_some (Some x # xs) = Some x"

text \<open>
  Backtracking match at the start of the text. The result is the text each piece matched and
  the text left over. A group tries its alternatives in order and keeps the first one after
  which the rest of the expression matches; \<open>\s+\<close> is greedy: it first takes the whole run
  of whitespace, then gives back one character at a time, and keeps at least one.
\<close>

fun match_pieces :: "piece list \<Rightarrow> string \<Rightarrow> (string list \<times> string) option" where
  "match_pieces [] s = Some ([], s)"
| "match_pieces (Group alts # ps) s =
     first_some (map (\<lambda>alt.
        case match_classes alt s of
          None \<Rightarrow> None
        | Some (m, r) \<Rightarrow>
            (case match_pieces ps r of None \<Rightarrow> None | Some (gs, rest) \<Rightarrow> Some (m # gs, rest)))
      alts)"
| "match_pieces (Whitespace # ps) s =
     first_some (map (\<lambda>k.
        case match_pieces ps (drop k s) of
          None \<Rightarrow> None
        | Some (gs, rest) \<Rightarrow> Some (take k s # gs, rest))
      (rev [1 ..< Suc (length (takeWhile isspace s))]))"

text \<open>
  \<open>%d\<close> is \<open>(3[0-1]|[1-2]\d|0[1-9]|[1-9]| [1-9])\<close>, \<open>%Y\<close> is \<open>(\d\d\d\d)\<close>, and \<open>%B\<close> is
  the alternation of the locale's full month names (English), longest first and otherwise
  in calendar order, matched ignoring case.
\<close>

definition regex_d :: piece where
  "regex_d = Group [[one_of ''3'', one_of ''01''],
                    [one_of ''12'', isdigit],
                    [one_of ''0'', one_of ''123456789''],
                    [one_of ''123456789''],
                    [one_of '' '', one_of ''123456789'']]"

definition f_month :: "string list" where
  "f_month = [''january'', ''february'', ''march'', ''april'', ''may'', ''june'', ''july'',
              ''august'', ''september'', ''october'', ''november'', ''december'']"

definition regex_B :: piece where
  "regex_B = Group (map (map ignore_case)
                      [''september'', ''february'', ''november'', ''december'', ''january'',
                       ''october'', ''august'', ''march'', ''april'', ''june'', ''july'', ''may''])"

definition regex_Y :: piece where
  "regex_Y = Group [[isdigit, isdigit, isdigit, isdigit]]"

text \<open>The format \<open>'%d %B %Y'\<close>.\<close>

definition format_regex :: "piece list" where
  "format_regex = [regex_d, Whitespace, regex_B, Whitespace, regex_Y]"

text \<open>\<open>f_month.index(name)\<close>, counting January as 1.\<close>

fun index_from :: "nat \<Rightarrow> string list \<Rightarrow> string \<Rightarrow> nat option" where
  "index_from i [] x = None"
| "index_from i (y # ys) x = (if y = x then Some i else index_from (Suc i) ys x)"

subsection \<open>Calendar dates\<close>

record py_date =
  year :: nat
  month :: nat
  day :: nat

definition is_leap :: "nat \<Rightarrow> bool" where
  "is_leap y = (y mod 4 = 0 \<and> (y mod 100 \<noteq> 0 \<or> y mod 400 = 0))"

definition days_in_month :: "nat \<Rightarrow> nat \<Rightarrow> nat" where
  "days_in_month y m =
     (if m = 2 \<and> is_leap y then 29
      else [0, 31, 28, 31, 30, 31, 30, 31, 31, 30, 31, 30, 31] ! m)"

text \<open>
  The constructor \<open>date(year, month, day)\<close>: a ValueError unless the year is in 1..9999, the
  month in 1..12 and the day in 1..days of that month.
\<close>

definition make_date :: "nat \<Rightarrow> nat \<Rightarrow> nat \<Rightarrow> error + py_date" where
  "make_date y m d =
     (if 1 \<le> y \<and> y \<le> 9999 \<and> 1 \<le> m \<and> m \<le> 12 \<and> 1 \<le> d \<and> d \<le> days_in_month y m
      then Inr \<lparr>year = y, month = m, day = d\<rparr>
      else Inl ValueError)"

text \<open>
  \<open>datetime.strptime(s, '%d %B %Y').date()\<close>: a ValueError when the expression does not
  match at the start of the text, when text is left over after the match, or when the
  day, month and year read are no calendar date.
\<close>

definition strptime :: "string \<Rightarrow> error + py_date" where
  "strptime s =
     (case match_pieces format_regex s of
        None \<Rightarrow> Inl ValueError
      | Some (found, rest) \<Rightarrow>
          if rest \<noteq> [] then Inl ValueError
          else (case found of
                  [d, _, b, _, y] \<Rightarrow>
                    (case (int_of_str y, index_from 1 f_month (lower b), int_of_str d) of
                       (Some yv, Some mv, Some dv) \<Rightarrow> make_date yv mv dv
                     | _ \<Rightarrow> Inl ValueError)
                | _ \<Rightarrow> Inl ValueError))"

text \<open>The decimal digits of a number, and \<open>'%0wd'\<close>.\<close>

definition digit_chr :: "nat \<Rightarrow> char" where
  "digit_chr d = ''0123456789'' ! d"

function digits_of :: "nat \<Rightarrow> string" where
  "digits_of n = (if n < 10 then [digit_chr n] else digits_of (n div 10) @ [digit_chr (n mod 10)])"
  by pat_completeness auto
termination
  by (relation "measure id") auto

declare digits_of.simps [simp del]

definition zero_padded :: "nat \<Rightarrow> nat \<Rightarrow> string" where
  "zero_padded w n = replicate (w - length (digits_of n)) CHR ''0'' @ digits_of n"

definition isoformat :: "py_date \<Rightarrow> string" where
  "isoformat dt = zero_padded 4 (year dt) @ ''-'' @ zero_padded 2 (month dt) @ ''-''
                  @ zero_padded 2 (day dt)"

definition get_date :: "node \<Rightarrow> error + string" where
  "get_date item =
     (case select_div item ''paper-pubdate'' of
        [] \<Rightarrow> Inl IndexError
      | date_div # _ \<Rightarrow>
          (case find_name_class date_div ''span'' ''field-content'' of
             None \<Rightarrow> Inl (AttributeError ''text'')
           | Some sp \<Rightarrow>
               (case strptime (strip (text_of sp)) of
                  Inl e \<Rightarrow> Inl e
                | Inr dt \<Rightarrow> Inr (isoformat dt))))"

section \<open>Records and the pipeline\<close>

record paper =
  title :: string
  url :: string
  authors :: "string list"
  date :: string
  abstract :: string
  topics :: "string list"

fun get_attr :: "node \<Rightarrow> string \<Rightarrow> string option" where
  "get_attr (Tag n c a ks) key = map_of a key"
| "get_attr (NavigableString s) key = None"

text \<open>
  The dictionary is built field by field in the order it is written, so the first field
  that fails decides the error.
\<close>

definition convert_raw_paper_to_dict :: "node \<Rightarrow> error + paper" where
  "convert_raw_paper_to_dict item =
     (case find_name item ''h3'' of
        None \<Rightarrow> Inl (AttributeError ''text'')
      | Some h3 \<Rightarrow>
     (case find_name h3 ''a'' of
        None \<Rightarrow> Inl TypeError
      | Some a \<Rightarrow>
     (case get_attr a ''href'' of
        None \<Rightarrow> Inl (KeyError ''href'')
      | Some href \<Rightarrow>
     (case get_author_list item of
        Inl e \<Rightarrow> Inl e
      | Inr au \<Rightarrow>
     (case get_date item of
        Inl e \<Rightarrow> Inl e
      | Inr dt \<Rightarrow>
     (case get_abstract item of
        Inl e \<Rightarrow> Inl e
      | Inr ab \<Rightarrow>
     (case get_topics_list item of
        Inl e \<Rightarrow> Inl e
      | Inr tp \<Rightarrow>
          Inr \<lparr>title = text_of h3, url = ''https://www.nla.gov.au'' @ href, authors = au,
               date = dt, abstract = ab, topics = tp\<rparr>)))))))"

definition extract_raw_search_results :: "node \<Rightarrow> error + node list" where
  "extract_raw_search_results soup =
     (case find_class soup ''search-results'' of
        None \<Rightarrow> Inl (AttributeError ''find_all'')
      | Some results \<Rightarrow> Inr (find_all results ''li''))"

text \<open>The loop of \<open>scrape\<close>: \<open>processed_results\<close> grows by one record per result.\<close>

fun scrape_loop :: "node list \<Rightarrow> paper list \<Rightarrow> error + paper list" where
  "scrape_loop [] processed_results = Inr processed_results"
| "scrape_loop (result # search_results) processed_results =
     (case convert_raw_paper_to_dict result of
        Inl e \<Rightarrow> Inl e
      | Inr p \<Rightarrow> scrape_loop search_results (processed_results @ [p]))"

text \<open>
  \<open>collect_soup\<close> downloads and parses the page; the network and the parser are outside the
  program, so it is a parameter: the parsed page for a URL, or the error of the download.
\<close>

definition scrape :: "(string \<Rightarrow> error + node) \<Rightarrow> string \<Rightarrow> error + paper list" where
  "scrape collect_soup url_arg =
     (case collect_soup url_arg of
        Inl e \<Rightarrow> Inl e
      | Inr page \<Rightarrow>
          (case extract_raw_search_results page of
             Inl e \<Rightarrow> Inl e
           | Inr search_results \<Rightarrow> scrape_loop search_results []))"

section \<open>The output path\<close>

record datetime =
  dt_year :: nat
  dt_month :: nat
  dt_day :: nat
  dt_hour :: nat
  dt_minute :: nat
  dt_second :: nat

text \<open>\<open>now.strftime('%Y-%m-%d-%H-%M-%S')\<close>.\<close>

definition strftime :: "datetime \<Rightarrow> string" where
  "strftime now =
     zero_padded 4 (dt_year now) @ ''-'' @ zero_padded 2 (dt_month now) @ ''-''
     @ zero_padded 2 (dt_day now) @ ''-'' @ zero_padded 2 (dt_hour now) @ ''-''
     @ zero_padded 2 (dt_minute now) @ ''-'' @ zero_padded 2 (dt_second now)"

text \<open>\<open>os.path.join(a, b)\<close> on POSIX.\<close>

definition os_path_join :: "string \<Rightarrow> string \<Rightarrow> string" where
  "os_path_join a b =
     (if startswith b ''/'' then b
      else if a = [] \<or> endswith a ''/'' then a @ b
      else a @ ''/'' @ b)"

text \<open>The clock read by \<open>datetime.now()\<close> is the parameter \<open>now\<close>.\<close>

definition add_filename_default :: "datetime \<Rightarrow> string \<Rightarrow> string" where
  "add_filename_default now outpath =
     (let default_file_name = strftime now @ ''.json''
      in if \<not> endswith outpath ''.json'' then os_path_join outpath default_file_name
         else outpath)"

text \<open>
  The path \<open>main\<close> opens for writing, from \<open>args.outpath\<close> as \<open>parse_args\<close> returns it
  (the user's \<open>--outpath\<close> made absolute).
\<close>

definition main_outpath :: "datetime \<Rightarrow> string \<Rightarrow> string" where
  "main_outpath now outpath =
     (if \<not> endswith outpath ''.json'' then add_filename_default now outpath else outpath)"

section \<open>The shared list extractor and fixture documents\<close>

text \<open>
  The extractor the specification describes for both list fields: find the first
  \<open>div\<close> whose class contains the marker, then the \<open>field-content\<close> span inside it, split
  its text on commas and trim each piece.
\<close>

definition extract_comma_list :: "string \<Rightarrow> node \<Rightarrow> error + string list" where
  "extract_comma_list marker item =
     (case select_div item marker of
        [] \<Rightarrow> Inl IndexError
      | field_div # _ \<Rightarrow>
          (case find_name_class field_div ''span'' ''field-content'' of
             None \<Rightarrow> Inl (AttributeError ''text'')
           | Some sp \<Rightarrow> Inr (map strip (split (text_of sp) CHR '',''))))"

text \<open>
  Documents shaped like the listing page: a list whose class is given, with one \<open>li\<close> per
  paper; each holds a heading with a link and one \<open>div\<close> per field, the text of a field in
  a \<open>field-content\<close> span.
\<close>

definition span_field :: "string \<Rightarrow> node" where
  "span_field t = Tag ''span'' (Some [''field-content'']) [] [NavigableString t]"

definition div_field :: "string \<Rightarrow> string \<Rightarrow> node" where
  "div_field cls t = Tag ''div'' (Some [''views-field'', cls]) [] [span_field t]"

definition listing ::
  "string \<Rightarrow> string \<Rightarrow> string \<Rightarrow> string \<Rightarrow> string \<Rightarrow> string \<Rightarrow> node" where
  "listing ttl href au dt ab tp =
     Tag ''li'' None []
       [Tag ''h3'' None [] [Tag ''a'' None [(''href'', href)] [NavigableString ttl]],
        div_field ''views-field-field-paper-author'' au,
        div_field ''views-field-field-paper-pubdate'' dt,
        Tag ''div'' (Some [''views-field'', ''views-field-field-paper-abstract'']) []
          [NavigableString ab],
        div_field ''views-field-field-paper-topics'' tp]"

definition results_page :: "string \<Rightarrow> node list \<Rightarrow> node" where
  "results_page cls items =
     Tag ''[document]'' None []
       [Tag ''html'' None [] [Tag ''body'' None [] [Tag ''ul'' (Some [cls]) [] items]]]"

definition my_paper :: node where
  "my_paper = listing ''My Paper'' ''/pub/123'' ''A. One, B. Two'' ''5 May 2021''
                ''  An abstract.  '' ''Economics''"

definition other_paper :: node where
  "other_paper = listing ''Other'' ''https://example.org/x'' ''A,, B'' ''31 December 1999''
                   ''Text'' ''Jane Doe, John Smith''"

definition undated_paper :: node where
  "undated_paper = listing ''Undated'' ''/pub/7'' ''Solo Author'' ''2020-01-01'' ''Text'' ''History''"

definition bare_listing :: node where
  "bare_listing = Tag ''li'' None [] []"

definition spanless_listing :: node where
  "spanless_listing =
     Tag ''li'' None []
       [Tag ''div'' (Some [''paper-author'']) [] [], Tag ''div'' (Some [''paper-topics'']) [] [],
        Tag ''div'' (Some [''paper-pubdate'']) [] []]"

section \<open>Splitting and joining\<close>

lemma split_from_not_Nil: "split_from sep cur s \<noteq> []"
  by (induction s arbitrary: cur) auto

lemma join_Cons: "ps \<noteq> [] \<Longrightarrow> join sep (p # ps) = p @ sep @ join sep ps"
  by (cases ps) auto

lemma split_from_length: "length (split_from sep cur s) = Suc (count_list s sep)"
  by (induction s arbitrary: cur) auto

lemma split_from_join: "join [sep] (split_from sep cur s) = rev cur @ s"
  by (induction s arbitrary: cur) (auto simp: join_Cons split_from_not_Nil)

lemma split_from_no_sep:
  "sep \<notin> set cur \<Longrightarrow> \<forall>p\<in>set (split_from sep cur s). sep \<notin> set p"
proof (induction s arbitrary: cur)
  case Nil
  then show ?case by simp
next
  case (Cons c cs)
  show ?case
  proof (cases "c = sep")
    case True
    have "sep \<notin> set ([] :: string)" by simp
    from Cons.IH [OF this] Cons.prems True show ?thesis by simp
  next
    case False
    with Cons.prems have "sep \<notin> set (c # cur)" by simp
    from Cons.IH [OF this] False show ?thesis by simp
  qed
qed

text \<open>
  The pieces of \<open>split\<close> are one more than the separators, none holds a separator, and
  joining them with the separator gives the text back: nothing is dropped or reordered.
\<close>

lemma split_length: "length (split s sep) = Suc (count_list s sep)"
  by (simp add: split_def split_from_length)

lemma split_join: "join [sep] (split s sep) = s"
  by (simp add: split_def split_from_join)

lemma split_no_sep: "p \<in> set (split s sep) \<Longrightarrow> sep \<notin> set p"
  using split_from_no_sep [of sep "[]" s] by (simp add: split_def)

lemma split_examples:
  "map strip (split ''Jane Doe, John Smith'' CHR '','') = [''Jane Doe'', ''John Smith'']"
  "map strip (split ''Solo Author'' CHR '','') = [''Solo Author'']"
  "map strip (split ''A,, B'' CHR '','') = [''A'', '''', ''B'']"
  by code_simp+

section \<open>Substrings\<close>

lemma startswith_iff: "startswith s p \<longleftrightarrow> (\<exists>r. s = p @ r)"
  by (induction s p rule: startswith.induct) auto

lemma contains_iff: "contains s sub \<longleftrightarrow> (\<exists>p q. s = p @ sub @ q)"
proof (induction s)
  case Nil
  then show ?case by auto
next
  case (Cons c cs)
  show ?case
  proof
    assume "contains (c # cs) sub"
    then consider "startswith (c # cs) sub" | "contains cs sub" by auto
    then show "\<exists>p q. c # cs = p @ sub @ q"
    proof cases
      case 1
      then obtain r where "c # cs = [] @ sub @ r" by (auto simp: startswith_iff)
      then show ?thesis by blast
    next
      case 2
      with Cons.IH obtain p q where "cs = p @ sub @ q" by blast
      then have "c # cs = (c # p) @ sub @ q" by simp
      then show ?thesis by blast
    qed
  next
    assume "\<exists>p q. c # cs = p @ sub @ q"
    then obtain p q where e: "c # cs = p @ sub @ q" by blast
    show "contains (c # cs) sub"
    proof (cases p)
      case Nil
      with e have "startswith (c # cs) sub" by (auto simp: startswith_iff)
      then show ?thesis by simp
    next
      case (Cons a p')
      with e have "cs = p' @ sub @ q" by simp
      with Cons.IH have "contains cs sub" by blast
      then show ?thesis by simp
    qed
  qed
qed

lemma join_token: "tok \<in> set toks \<Longrightarrow> \<exists>p q. join sep toks = p @ tok @ q"
proof (induction sep toks rule: join.induct)
  case (1 sep)
  then show ?case by simp
next
  case (2 sep p)
  then have "join sep [p] = [] @ tok @ []" by simp
  then show ?case by blast
next
  case (3 sep p q ps)
  show ?case
  proof (cases "tok = p")
    case True
    then have "join sep (p # q # ps) = [] @ tok @ (sep @ join sep (q # ps))" by simp
    then show ?thesis by blast
  next
    case False
    with 3 obtain a b where "join sep (q # ps) = a @ tok @ b" by auto
    then have "join sep (p # q # ps) = (p @ sep @ a) @ tok @ b" by simp
    then show ?thesis by blast
  qed
qed

section \<open>The list fields\<close>

text \<open>
  C2. When the first \<open>div\<close> matching the marker holds a \<open>field-content\<close> span,
  \<open>get_author_list\<close> (and in the same way \<open>get_topics_list\<close>) returns the pieces of the
  span's text between commas, each trimmed, in their order. Splitting keeps every piece,
  empty ones too: there is one piece more than there are commas, no piece holds a comma,
  and the pieces joined by commas are the text.
\<close>

theorem list_fields_split_then_trim:
  "(select_div item ''paper-author'' = d # ds \<and>
      find_name_class d ''span'' ''field-content'' = Some sp \<longrightarrow>
      get_author_list item = Inr (map strip (split (text_of sp) CHR '',''))) \<and>
   (select_div item ''paper-topics'' = d' # ds' \<and>
      find_name_class d' ''span'' ''field-content'' = Some sp' \<longrightarrow>
      get_topics_list item = Inr (map strip (split (text_of sp') CHR '',''))) \<and>
   length (split t CHR '','') = Suc (count_list t CHR '','') \<and>
   join '','' (split t CHR '','') = t \<and>
   (\<forall>p\<in>set (split t CHR '',''). CHR '','' \<notin> set p)"
  by (simp add: get_author_list_def get_topics_list_def split_length split_join split_no_sep)

theorem list_fields_split_then_trim_witness:
  "select_div other_paper ''paper-author'' =
     [div_field ''views-field-field-paper-author'' ''A,, B''] \<and>
   find_name_class (div_field ''views-field-field-paper-author'' ''A,, B'') ''span''
     ''field-content'' = Some (span_field ''A,, B'') \<and>
   get_author_list other_paper = Inr [''A'', '''', ''B''] \<and>
   select_div other_paper ''paper-topics'' =
     [div_field ''views-field-field-paper-topics'' ''Jane Doe, John Smith''] \<and>
   find_name_class (div_field ''views-field-field-paper-topics'' ''Jane Doe, John Smith'')
     ''span'' ''field-content'' = Some (span_field ''Jane Doe, John Smith'') \<and>
   get_topics_list other_paper = Inr [''Jane Doe'', ''John Smith''] \<and>
   length (split ''A,, B'' CHR '','') = 3 \<and>
   join '','' (split ''A,, B'' CHR '','') = ''A,, B''"
proof -
  have a1: "select_div other_paper ''paper-author'' =
              [div_field ''views-field-field-paper-author'' ''A,, B'']"
    by code_simp
  have a2: "find_name_class (div_field ''views-field-field-paper-author'' ''A,, B'') ''span''
              ''field-content'' = Some (span_field ''A,, B'')"
    by code_simp
  have t1: "select_div other_paper ''paper-topics'' =
              [div_field ''views-field-field-paper-topics'' ''Jane Doe, John Smith'']"
    by code_simp
  have t2: "find_name_class (div_field ''views-field-field-paper-topics'' ''Jane Doe, John Smith'')
              ''span'' ''field-content'' = Some (span_field ''Jane Doe, John Smith'')"
    by code_simp
  have x1: "text_of (span_field ''A,, B'') = ''A,, B''"
    and x2: "text_of (span_field ''Jane Doe, John Smith'') = ''Jane Doe, John Smith''"
    by (simp_all add: span_field_def)
  have c: "count_list ''A,, B'' CHR '','' = 2" by simp
  note th = list_fields_split_then_trim
    [of other_paper "div_field ''views-field-field-paper-author'' ''A,, B''" "[]"
        "span_field ''A,, B''"
        "div_field ''views-field-field-paper-topics'' ''Jane Doe, John Smith''" "[]"
        "span_field ''Jane Doe, John Smith''" "''A,, B''"]
  from th a1 a2 t1 t2 show ?thesis
    by (simp add: x1 x2 c split_examples)
qed

text \<open>
  C9. \<open>get_author_list\<close> and \<open>get_topics_list\<close> are one extractor, \<open>extract_comma_list\<close>,
  applied to the markers \<open>paper-author\<close> and \<open>paper-topics\<close>.
\<close>

theorem list_fields_share_extractor:
  "get_author_list item = extract_comma_list ''paper-author'' item \<and>
   get_topics_list item = extract_comma_list ''paper-topics'' item"
  by (simp add: get_author_list_def get_topics_list_def extract_comma_list_def)

theorem list_fields_share_extractor_witness:
  "get_author_list my_paper = extract_comma_list ''paper-author'' my_paper \<and>
   get_topics_list my_paper = extract_comma_list ''paper-topics'' my_paper \<and>
   get_author_list my_paper = Inr [''A. One'', ''B. Two''] \<and>
   get_topics_list my_paper = Inr [''Economics'']"
proof -
  have "get_author_list my_paper = Inr [''A. One'', ''B. Two'']"
    and "get_topics_list my_paper = Inr [''Economics'']"
    by code_simp+
  with list_fields_share_extractor [of my_paper] show ?thesis by simp
qed

section \<open>Missing fields\<close>

text \<open>
  C8 (as the code has it). A field extractor whose marker \<open>div\<close> is missing fails with an
  IndexError, and one whose \<open>div\<close> is there without a \<open>field-content\<close> span fails with
  the AttributeError of reading \<open>text\<close> on \<open>None\<close>. The errors are the same for every
  field and every node: they name neither the field nor the node's position.
\<close>

theorem missing_field_errors:
  "(select_div item ''paper-author'' = [] \<longrightarrow> get_author_list item = Inl IndexError) \<and>
   (select_div item ''paper-topics'' = [] \<longrightarrow> get_topics_list item = Inl IndexError) \<and>
   (select_div item ''paper-abstract'' = [] \<longrightarrow> get_abstract item = Inl IndexError) \<and>
   (select_div item ''paper-pubdate'' = [] \<longrightarrow> get_date item = Inl IndexError) \<and>
   (select_div item' ''paper-author'' = d1 # ds1 \<and>
      find_name_class d1 ''span'' ''field-content'' = None \<longrightarrow>
      get_author_list item' = Inl (AttributeError ''text'')) \<and>
   (select_div item' ''paper-topics'' = d2 # ds2 \<and>
      find_name_class d2 ''span'' ''field-content'' = None \<longrightarrow>
      get_topics_list item' = Inl (AttributeError ''text'')) \<and>
   (select_div item' ''paper-pubdate'' = d3 # ds3 \<and>
      find_name_class d3 ''span'' ''field-content'' = None \<longrightarrow>
      get_date item' = Inl (AttributeError ''text''))"
  by (simp add: get_author_list_def get_topics_list_def get_abstract_def get_date_def)

theorem missing_field_errors_witness:
  "select_div bare_listing ''paper-author'' = [] \<and>
   select_div bare_listing ''paper-topics'' = [] \<and>
   select_div bare_listing ''paper-abstract'' = [] \<and>
   select_div bare_listing ''paper-pubdate'' = [] \<and>
   get_author_list bare_listing = Inl IndexError \<and>
   get_topics_list bare_listing = Inl IndexError \<and>
   get_abstract bare_listing = Inl IndexError \<and>
   get_date bare_listing = Inl IndexError \<and>
   select_div spanless_listing ''paper-author'' = [Tag ''div'' (Some [''paper-author'']) [] []] \<and>
   select_div spanless_listing ''paper-topics'' = [Tag ''div'' (Some [''paper-topics'']) [] []] \<and>
   select_div spanless_listing ''paper-pubdate'' = [Tag ''div'' (Some [''paper-pubdate'']) [] []] \<and>
   find_name_class (Tag ''div'' (Some [''paper-author'']) [] []) ''span'' ''field-content'' = None \<and>
   find_name_class (Tag ''div'' (Some [''paper-topics'']) [] []) ''span'' ''field-content'' = None \<and>
   find_name_class (Tag ''div'' (Some [''paper-pubdate'']) [] []) ''span'' ''field-content'' = None \<and>
   get_author_list spanless_listing = Inl (AttributeError ''text'') \<and>
   get_topics_list spanless_listing = Inl (AttributeError ''text'') \<and>
   get_date spanless_listing = Inl (AttributeError ''text'')"
proof -
  let ?da = "Tag ''div'' (Some [''paper-author'']) [] []"
  let ?dt = "Tag ''div'' (Some [''paper-topics'']) [] []"
  let ?dp = "Tag ''div'' (Some [''paper-pubdate'']) [] []"
  have b: "select_div bare_listing ''paper-author'' = []"
    "select_div bare_listing ''paper-topics'' = []"
    "select_div bare_listing ''paper-abstract'' = []"
    "select_div bare_listing ''paper-pubdate'' = []"
    by code_simp+
  have s: "select_div spanless_listing ''paper-author'' = [?da]"
    "select_div spanless_listing ''paper-topics'' = [?dt]"
    "select_div spanless_listing ''paper-pubdate'' = [?dp]"
    by code_simp+
  have f: "find_name_class ?da ''span'' ''field-content'' = None"
    "find_name_class ?dt ''span'' ''field-content'' = None"
    "find_name_class ?dp ''span'' ''field-content'' = None"
    by code_simp+
  from missing_field_errors [of bare_listing spanless_listing ?da "[]" ?dt "[]" ?dp "[]"] b s f
  show ?thesis by simp
qed

text \<open>
  The claim that the error identifies the field fails on the code: on a node with no
  field at all, the author extractor and the date extractor fail with the same error.
\<close>

theorem missing_field_errors_counterexample:
  "get_author_list bare_listing = Inl IndexError \<and> get_date bare_listing = Inl IndexError"
  by code_simp

section \<open>Marker lookups\<close>

lemma find_first:
  "P x \<Longrightarrow> \<forall>k\<in>set before. \<not> P k \<Longrightarrow> find P (before @ x # after) = Some x"
  by (induction before) auto

lemma find_Some_split:
  "find P xs = Some x \<Longrightarrow>
   \<exists>before after. xs = before @ x # after \<and> P x \<and> (\<forall>k\<in>set before. \<not> P k)"
proof (induction xs)
  case Nil
  then show ?case by simp
next
  case (Cons a xs)
  show ?case
  proof (cases "P a")
    case True
    with Cons.prems have "a # xs = [] @ x # xs \<and> P x \<and> (\<forall>k\<in>set []. \<not> P k)" by simp
    then show ?thesis by blast
  next
    case False
    with Cons.prems have "find P xs = Some x" by simp
    from Cons.IH [OF this] obtain before after
      where "xs = before @ x # after" "P x" "\<forall>k\<in>set before. \<not> P k" by blast
    with False have "a # xs = (a # before) @ x # after \<and> P x \<and> (\<forall>k\<in>set (a # before). \<not> P k)"
      by simp
    then show ?thesis by blast
  qed
qed

lemma class_matches_iff:
  "class_matches v k \<longleftrightarrow>
   (\<exists>n cs as ks. k = Tag n (Some cs) as ks \<and> (v \<in> set cs \<or> join '' '' cs = v))"
  by (cases "(v, k)" rule: class_matches.cases) auto

lemma class_contains_iff:
  "class_contains marker k \<longleftrightarrow>
   (\<exists>n toks as ks p q. k = Tag n (Some toks) as ks \<and> join '' '' toks = p @ marker @ q)"
  by (cases "(marker, k)" rule: class_contains.cases) (auto simp: contains_iff)

lemma has_name_iff: "has_name nm k \<longleftrightarrow> (\<exists>c as ks. k = Tag nm c as ks)"
  by (cases "(nm, k)" rule: has_name.cases) auto

lemma select_div_member:
  "Tag ''div'' (Some toks) as ks \<in> set (descendants item) \<Longrightarrow> pre @ marker @ post \<in> set toks
   \<Longrightarrow> Tag ''div'' (Some toks) as ks \<in> set (select_div item marker)"
proof -
  assume d: "Tag ''div'' (Some toks) as ks \<in> set (descendants item)"
    and t: "pre @ marker @ post \<in> set toks"
  from t obtain p q where "join '' '' toks = p @ (pre @ marker @ post) @ q"
    using join_token by blast
  then have "join '' '' toks = (p @ pre) @ marker @ (post @ q)" by simp
  then have "contains (join '' '' toks) marker" unfolding contains_iff by blast
  with d show ?thesis by (simp add: select_div_def)
qed

lemma select_div_not_Nil:
  "Tag ''div'' (Some toks) as ks \<in> set (descendants item) \<Longrightarrow> pre @ marker @ post \<in> set toks
   \<Longrightarrow> \<exists>d ds. select_div item marker = d # ds"
  using select_div_member [of toks as ks item pre marker post]
  by (cases "select_div item marker") auto


lemma author_lookup_substring:
  "Tag ''div'' (Some ta) aa ka \<in> set (descendants item) \<and> pa @ ''paper-author'' @ qa \<in> set ta
   \<longrightarrow> (\<exists>d ds. select_div item ''paper-author'' = d # ds) \<and>
       get_author_list item \<noteq> Inl IndexError"
proof
  assume "Tag ''div'' (Some ta) aa ka \<in> set (descendants item) \<and>
          pa @ ''paper-author'' @ qa \<in> set ta"
  then obtain d ds where s: "select_div item ''paper-author'' = d # ds"
    using select_div_not_Nil by blast
  then have "get_author_list item \<noteq> Inl IndexError"
    by (simp add: get_author_list_def split: option.splits)
  with s show "(\<exists>d ds. select_div item ''paper-author'' = d # ds) \<and>
               get_author_list item \<noteq> Inl IndexError" by blast
qed

lemma topics_lookup_substring:
  "Tag ''div'' (Some tt) at kt \<in> set (descendants item) \<and> pt @ ''paper-topics'' @ qt \<in> set tt
   \<longrightarrow> (\<exists>d ds. select_div item ''paper-topics'' = d # ds) \<and>
       get_topics_list item \<noteq> Inl IndexError"
proof
  assume "Tag ''div'' (Some tt) at kt \<in> set (descendants item) \<and>
          pt @ ''paper-topics'' @ qt \<in> set tt"
  then obtain d ds where s: "select_div item ''paper-topics'' = d # ds"
    using select_div_not_Nil by blast
  then have "get_topics_list item \<noteq> Inl IndexError"
    by (simp add: get_topics_list_def split: option.splits)
  with s show "(\<exists>d ds. select_div item ''paper-topics'' = d # ds) \<and>
               get_topics_list item \<noteq> Inl IndexError" by blast
qed

lemma abstract_lookup_substring:
  "Tag ''div'' (Some tb) ab kb \<in> set (descendants item) \<and> pb @ ''paper-abstract'' @ qb \<in> set tb
   \<longrightarrow> (\<exists>d ds. select_div item ''paper-abstract'' = d # ds \<and>
               get_abstract item = Inr (strip (text_of d)))"
proof
  assume "Tag ''div'' (Some tb) ab kb \<in> set (descendants item) \<and>
          pb @ ''paper-abstract'' @ qb \<in> set tb"
  then obtain d ds where s: "select_div item ''paper-abstract'' = d # ds"
    using select_div_not_Nil by blast
  then have "get_abstract item = Inr (strip (text_of d))"
    by (simp add: get_abstract_def)
  with s show "\<exists>d ds. select_div item ''paper-abstract'' = d # ds \<and>
                 get_abstract item = Inr (strip (text_of d))" by blast
qed

lemma pubdate_lookup_substring:
  "Tag ''div'' (Some tp) ap kp \<in> set (descendants item) \<and> pp @ ''paper-pubdate'' @ qp \<in> set tp
   \<longrightarrow> (\<exists>d ds. select_div item ''paper-pubdate'' = d # ds) \<and>
       get_date item \<noteq> Inl IndexError"
proof
  assume "Tag ''div'' (Some tp) ap kp \<in> set (descendants item) \<and>
          pp @ ''paper-pubdate'' @ qp \<in> set tp"
  then obtain d ds where s: "select_div item ''paper-pubdate'' = d # ds"
    using select_div_not_Nil by blast
  have "strptime x \<noteq> Inl IndexError" for x
    by (simp add: strptime_def make_date_def split: option.splits list.splits prod.splits)
  then have "get_date item \<noteq> Inl IndexError" using s
    by (auto simp: get_date_def split: option.splits sum.splits)
  with s show "(\<exists>d ds. select_div item ''paper-pubdate'' = d # ds) \<and>
               get_date item \<noteq> Inl IndexError" by blast
qed

lemma select_div_sound:
  "k \<in> set (select_div item marker) \<longrightarrow>
     k \<in> set (descendants item) \<and>
     (\<exists>toks as ks p q. k = Tag ''div'' (Some toks) as ks \<and> join '' '' toks = p @ marker @ q)"
  by (auto simp: select_div_def has_name_iff class_contains_iff)

lemma find_class_first:
  "descendants page = before @ r # after \<and> r = Tag n (Some cs) as ks \<and>
   (v \<in> set cs \<or> join '' '' cs = v) \<and>
   (\<forall>n' cs' as' ks'. Tag n' (Some cs') as' ks' \<in> set before \<longrightarrow>
      v \<notin> set cs' \<and> join '' '' cs' \<noteq> v)
   \<longrightarrow> find_class page v = Some r"
proof
  assume a: "descendants page = before @ r # after \<and> r = Tag n (Some cs) as ks \<and>
   (v \<in> set cs \<or> join '' '' cs = v) \<and>
   (\<forall>n' cs' as' ks'. Tag n' (Some cs') as' ks' \<in> set before \<longrightarrow>
      v \<notin> set cs' \<and> join '' '' cs' \<noteq> v)"
  then have m: "class_matches v r" by auto
  have "\<not> class_matches v k" if "k \<in> set before" for k
    using a that unfolding class_matches_iff by blast
  with m a show "find_class page v = Some r"
    by (simp add: find_class_def find_first)
qed

lemma find_class_sound:
  "find_class page v = Some r \<longrightarrow>
     (\<exists>before after n cs as ks.
        descendants page = before @ r # after \<and> r = Tag n (Some cs) as ks \<and>
        (v \<in> set cs \<or> join '' '' cs = v) \<and>
        (\<forall>n' cs' as' ks'. Tag n' (Some cs') as' ks' \<in> set before \<longrightarrow>
           v \<notin> set cs' \<and> join '' '' cs' \<noteq> v))"
proof
  assume "find_class page v = Some r"
  then have "find (class_matches v) (descendants page) = Some r" by (simp add: find_class_def)
  from find_Some_split [OF this] obtain before after
    where d: "descendants page = before @ r # after" and m: "class_matches v r"
      and b: "\<forall>k\<in>set before. \<not> class_matches v k" by blast
  from m obtain n cs as ks where "r = Tag n (Some cs) as ks" "v \<in> set cs \<or> join '' '' cs = v"
    unfolding class_matches_iff by blast
  moreover from b have "\<forall>n' cs' as' ks'. Tag n' (Some cs') as' ks' \<in> set before \<longrightarrow>
           v \<notin> set cs' \<and> join '' '' cs' \<noteq> v"
    unfolding class_matches_iff by blast
  ultimately show "\<exists>before after n cs as ks.
        descendants page = before @ r # after \<and> r = Tag n (Some cs) as ks \<and>
        (v \<in> set cs \<or> join '' '' cs = v) \<and>
        (\<forall>n' cs' as' ks'. Tag n' (Some cs') as' ks' \<in> set before \<longrightarrow>
           v \<notin> set cs' \<and> join '' '' cs' \<noteq> v)" using d by blast
qed

lemma container_found:
  "find_class soup ''search-results'' = Some res \<longrightarrow>
     extract_raw_search_results soup = Inr (find_all res ''li'')"
  by (simp add: extract_raw_search_results_def)

lemma container_missing:
  "(\<forall>n cs as ks. Tag n (Some cs) as ks \<in> set (descendants soup) \<longrightarrow>
        ''search-results'' \<notin> set cs \<and> join '' '' cs \<noteq> ''search-results'') \<longrightarrow>
   extract_raw_search_results soup = Inl (AttributeError ''find_all'')"
proof
  assume n: "\<forall>n cs as ks. Tag n (Some cs) as ks \<in> set (descendants soup) \<longrightarrow>
        ''search-results'' \<notin> set cs \<and> join '' '' cs \<noteq> ''search-results''"
  have "\<not> class_matches ''search-results'' x" if "x \<in> set (descendants soup)" for x
    using n that unfolding class_matches_iff by blast
  then have "find_class soup ''search-results'' = None"
    by (simp add: find_class_def find_None_iff)
  then show "extract_raw_search_results soup = Inl (AttributeError ''find_all'')"
    by (simp add: extract_raw_search_results_def)
qed

lemma find_name_class_first:
  "descendants d = sbefore @ sp # safter \<and> sp = Tag nm (Some scs) sas sks \<and>
   (sv \<in> set scs \<or> join '' '' scs = sv) \<and>
   (\<forall>n' cs' as' ks'. Tag n' (Some cs') as' ks' \<in> set sbefore \<longrightarrow>
      n' \<noteq> nm \<or> (sv \<notin> set cs' \<and> join '' '' cs' \<noteq> sv))
   \<longrightarrow> find_name_class d nm sv = Some sp"
proof
  assume a: "descendants d = sbefore @ sp # safter \<and> sp = Tag nm (Some scs) sas sks \<and>
   (sv \<in> set scs \<or> join '' '' scs = sv) \<and>
   (\<forall>n' cs' as' ks'. Tag n' (Some cs') as' ks' \<in> set sbefore \<longrightarrow>
      n' \<noteq> nm \<or> (sv \<notin> set cs' \<and> join '' '' cs' \<noteq> sv))"
  then have m: "has_name nm sp \<and> class_matches sv sp" by auto
  have "\<not> (has_name nm k \<and> class_matches sv k)" if "k \<in> set sbefore" for k
    using a that unfolding class_matches_iff has_name_iff by blast
  with m a show "find_name_class d nm sv = Some sp"
    by (simp add: find_name_class_def find_first)
qed

lemma find_name_class_sound:
  "find_name_class d nm sv = Some sp \<longrightarrow>
     (\<exists>before after cs as ks.
        descendants d = before @ sp # after \<and> sp = Tag nm (Some cs) as ks \<and>
        (sv \<in> set cs \<or> join '' '' cs = sv) \<and>
        (\<forall>n' cs' as' ks'. Tag n' (Some cs') as' ks' \<in> set before \<longrightarrow>
           n' \<noteq> nm \<or> (sv \<notin> set cs' \<and> join '' '' cs' \<noteq> sv)))"
proof
  assume "find_name_class d nm sv = Some sp"
  then have "find (\<lambda>k. has_name nm k \<and> class_matches sv k) (descendants d) = Some sp"
    by (simp add: find_name_class_def)
  from find_Some_split [OF this] obtain before after
    where d: "descendants d = before @ sp # after"
      and m: "has_name nm sp \<and> class_matches sv sp"
      and b: "\<forall>k\<in>set before. \<not> (has_name nm k \<and> class_matches sv k)" by blast
  from m obtain cs as ks where "sp = Tag nm (Some cs) as ks" "sv \<in> set cs \<or> join '' '' cs = sv"
    unfolding class_matches_iff has_name_iff by auto
  moreover from b have "\<forall>n' cs' as' ks'. Tag n' (Some cs') as' ks' \<in> set before \<longrightarrow>
           n' \<noteq> nm \<or> (sv \<notin> set cs' \<and> join '' '' cs' \<noteq> sv)"
    unfolding class_matches_iff has_name_iff by blast
  ultimately show "\<exists>before after cs as ks.
        descendants d = before @ sp # after \<and> sp = Tag nm (Some cs) as ks \<and>
        (sv \<in> set cs \<or> join '' '' cs = sv) \<and>
        (\<forall>n' cs' as' ks'. Tag n' (Some cs') as' ks' \<in> set before \<longrightarrow>
           n' \<noteq> nm \<or> (sv \<notin> set cs' \<and> join '' '' cs' \<noteq> sv))" using d by blast
qed

lemma find_name_class_missing:
  "(\<forall>n cs as ks. Tag n (Some cs) as ks \<in> set (descendants d) \<longrightarrow>
      n \<noteq> nm \<or> (sv \<notin> set cs \<and> join '' '' cs \<noteq> sv))
   \<longrightarrow> find_name_class d nm sv = None"
proof
  assume n: "\<forall>n cs as ks. Tag n (Some cs) as ks \<in> set (descendants d) \<longrightarrow>
      n \<noteq> nm \<or> (sv \<notin> set cs \<and> join '' '' cs \<noteq> sv)"
  have "\<not> (has_name nm k \<and> class_matches sv k)" if "k \<in> set (descendants d)" for k
    using n that unfolding class_matches_iff has_name_iff by blast
  then show "find_name_class d nm sv = None"
    by (simp add: find_name_class_def find_None_iff)
qed

lemma descendants_unmarked_page:
  "descendants (results_page ''search-results-list'' []) =
     [Tag ''html'' None [] [Tag ''body'' None [] [Tag ''ul'' (Some [''search-results-list'']) [] []]],
      Tag ''body'' None [] [Tag ''ul'' (Some [''search-results-list'']) [] []],
      Tag ''ul'' (Some [''search-results-list'']) [] []]"
  by (simp add: results_page_def)

lemma descendants_empty_page:
  "descendants (results_page ''search-results'' []) =
     [Tag ''html'' None [] [Tag ''body'' None [] [Tag ''ul'' (Some [''search-results'']) [] []]],
      Tag ''body'' None [] [Tag ''ul'' (Some [''search-results'']) [] []]]
     @ Tag ''ul'' (Some [''search-results'']) [] [] # []"
  by (simp add: results_page_def)

text \<open>
  C6 (as the code has it). The four field lookups select \<open>div\<close> elements by substring: a
  \<open>div\<close> below the node is selected as soon as one of its class tokens contains the marker,
  also inside a longer token, and only such \<open>div\<close>s are selected; with such a \<open>div\<close> below
  the node, none of the four extractors fails for a missing element. The lookup of the
  results container and that of the span inside a field are no substring matches: each
  finds the first element in document order (for the span: the first \<open>span\<close>) that has
  the marker as one whole class token, or as its whole class attribute, and nothing else;
  when no element has it so, the lookup finds nothing, and a document without such an
  element has no results container.
\<close>

theorem marker_lookups:
  "(Tag ''div'' (Some toks) as ks \<in> set (descendants item) \<and> pre @ marker @ post \<in> set toks
      \<longrightarrow> Tag ''div'' (Some toks) as ks \<in> set (select_div item marker)) \<and>
   (k \<in> set (select_div item marker) \<longrightarrow>
      k \<in> set (descendants item) \<and>
      (\<exists>toks as ks p q. k = Tag ''div'' (Some toks) as ks \<and> join '' '' toks = p @ marker @ q)) \<and>
   (Tag ''div'' (Some ta) aa ka \<in> set (descendants item) \<and> pa @ ''paper-author'' @ qa \<in> set ta
      \<longrightarrow> (\<exists>d ds. select_div item ''paper-author'' = d # ds) \<and>
          get_author_list item \<noteq> Inl IndexError) \<and>
   (Tag ''div'' (Some tt) at kt \<in> set (descendants item) \<and> pt @ ''paper-topics'' @ qt \<in> set tt
      \<longrightarrow> (\<exists>d ds. select_div item ''paper-topics'' = d # ds) \<and>
          get_topics_list item \<noteq> Inl IndexError) \<and>
   (Tag ''div'' (Some tb) ab kb \<in> set (descendants item) \<and> pb @ ''paper-abstract'' @ qb \<in> set tb
      \<longrightarrow> (\<exists>d ds. select_div item ''paper-abstract'' = d # ds \<and>
                  get_abstract item = Inr (strip (text_of d)))) \<and>
   (Tag ''div'' (Some tp) ap kp \<in> set (descendants item) \<and> pp @ ''paper-pubdate'' @ qp \<in> set tp
      \<longrightarrow> (\<exists>d ds. select_div item ''paper-pubdate'' = d # ds) \<and>
          get_date item \<noteq> Inl IndexError) \<and>
   (descendants page = before @ r # after \<and> r = Tag n (Some cs) ras rks \<and>
      (v \<in> set cs \<or> join '' '' cs = v) \<and>
      (\<forall>n' cs' as' ks'. Tag n' (Some cs') as' ks' \<in> set before \<longrightarrow>
         v \<notin> set cs' \<and> join '' '' cs' \<noteq> v)
      \<longrightarrow> find_class page v = Some r) \<and>
   (find_class page v = Some r \<longrightarrow>
      (\<exists>before after n cs as ks.
         descendants page = before @ r # after \<and> r = Tag n (Some cs) as ks \<and>
         (v \<in> set cs \<or> join '' '' cs = v) \<and>
         (\<forall>n' cs' as' ks'. Tag n' (Some cs') as' ks' \<in> set before \<longrightarrow>
            v \<notin> set cs' \<and> join '' '' cs' \<noteq> v))) \<and>
   (find_class soup ''search-results'' = Some res \<longrightarrow>
      extract_raw_search_results soup = Inr (find_all res ''li'')) \<and>
   ((\<forall>n cs as ks. Tag n (Some cs) as ks \<in> set (descendants soup) \<longrightarrow>
        ''search-results'' \<notin> set cs \<and> join '' '' cs \<noteq> ''search-results'') \<longrightarrow>
      extract_raw_search_results soup = Inl (AttributeError ''find_all'')) \<and>
   (descendants d = sbefore @ sp # safter \<and> sp = Tag nm (Some scs) sas sks \<and>
      (sv \<in> set scs \<or> join '' '' scs = sv) \<and>
      (\<forall>n' cs' as' ks'. Tag n' (Some cs') as' ks' \<in> set sbefore \<longrightarrow>
         n' \<noteq> nm \<or> (sv \<notin> set cs' \<and> join '' '' cs' \<noteq> sv))
      \<longrightarrow> find_name_class d nm sv = Some sp) \<and>
   (find_name_class d nm sv = Some sp \<longrightarrow>
      (\<exists>before after cs as ks.
         descendants d = before @ sp # after \<and> sp = Tag nm (Some cs) as ks \<and>
         (sv \<in> set cs \<or> join '' '' cs = sv) \<and>
         (\<forall>n' cs' as' ks'. Tag n' (Some cs') as' ks' \<in> set before \<longrightarrow>
            n' \<noteq> nm \<or> (sv \<notin> set cs' \<and> join '' '' cs' \<noteq> sv)))) \<and>
   ((\<forall>n cs as ks. Tag n (Some cs) as ks \<in> set (descendants d) \<longrightarrow>
        n \<noteq> nm \<or> (sv \<notin> set cs \<and> join '' '' cs \<noteq> sv))
      \<longrightarrow> find_name_class d nm sv = None)"
proof (intro conjI)
  show "Tag ''div'' (Some toks) as ks \<in> set (descendants item) \<and> pre @ marker @ post \<in> set toks
      \<longrightarrow> Tag ''div'' (Some toks) as ks \<in> set (select_div item marker)"
    using select_div_member by blast
qed (rule select_div_sound author_lookup_substring topics_lookup_substring
      abstract_lookup_substring pubdate_lookup_substring find_class_first find_class_sound
      container_found container_missing find_name_class_first find_name_class_sound
      find_name_class_missing)+

theorem marker_lookups_witness:
  "Tag ''div'' (Some [''views-field'', ''views-field-field-paper-author'']) []
     [span_field ''A. One, B. Two''] \<in> set (descendants my_paper) \<and>
   ''views-field-field-'' @ ''paper-author'' @ ''''
     \<in> set [''views-field'', ''views-field-field-paper-author''] \<and>
   Tag ''div'' (Some [''views-field'', ''views-field-field-paper-author'']) []
     [span_field ''A. One, B. Two''] \<in> set (select_div my_paper ''paper-author'') \<and>
   (\<exists>toks as ks p q.
      Tag ''div'' (Some [''views-field'', ''views-field-field-paper-author'']) []
        [span_field ''A. One, B. Two''] = Tag ''div'' (Some toks) as ks \<and>
      join '' '' toks = p @ ''paper-author'' @ q) \<and>
   get_author_list my_paper \<noteq> Inl IndexError \<and>
   Tag ''div'' (Some [''views-field'', ''views-field-field-paper-topics'']) []
     [span_field ''Economics''] \<in> set (descendants my_paper) \<and>
   ''views-field-field-'' @ ''paper-topics'' @ ''''
     \<in> set [''views-field'', ''views-field-field-paper-topics''] \<and>
   get_topics_list my_paper \<noteq> Inl IndexError \<and>
   Tag ''div'' (Some [''views-field'', ''views-field-field-paper-abstract'']) []
     [NavigableString ''  An abstract.  ''] \<in> set (descendants my_paper) \<and>
   ''views-field-field-'' @ ''paper-abstract'' @ ''''
     \<in> set [''views-field'', ''views-field-field-paper-abstract''] \<and>
   (\<exists>d ds. select_div my_paper ''paper-abstract'' = d # ds \<and>
            get_abstract my_paper = Inr (strip (text_of d))) \<and>
   Tag ''div'' (Some [''views-field'', ''views-field-field-paper-pubdate'']) []
     [span_field ''5 May 2021''] \<in> set (descendants my_paper) \<and>
   ''views-field-field-'' @ ''paper-pubdate'' @ ''''
     \<in> set [''views-field'', ''views-field-field-paper-pubdate''] \<and>
   get_date my_paper \<noteq> Inl IndexError \<and>
   descendants (results_page ''search-results'' []) =
     [Tag ''html'' None [] [Tag ''body'' None [] [Tag ''ul'' (Some [''search-results'']) [] []]],
      Tag ''body'' None [] [Tag ''ul'' (Some [''search-results'']) [] []]]
     @ Tag ''ul'' (Some [''search-results'']) [] [] # [] \<and>
   find_class (results_page ''search-results'' []) ''search-results''
     = Some (Tag ''ul'' (Some [''search-results'']) [] []) \<and>
   extract_raw_search_results (results_page ''search-results'' [])
     = Inr (find_all (Tag ''ul'' (Some [''search-results'']) [] []) ''li'') \<and>
   descendants (results_page ''search-results-list'' []) =
     [Tag ''html'' None [] [Tag ''body'' None [] [Tag ''ul'' (Some [''search-results-list'']) [] []]],
      Tag ''body'' None [] [Tag ''ul'' (Some [''search-results-list'']) [] []],
      Tag ''ul'' (Some [''search-results-list'']) [] []] \<and>
   extract_raw_search_results (results_page ''search-results-list'' [])
     = Inl (AttributeError ''find_all'') \<and>
   descendants (Tag ''div'' (Some [''paper-author'']) []
                  [NavigableString ''By '', Tag ''span'' (Some [''field-content'', ''x'']) [] []])
     = [NavigableString ''By ''] @ Tag ''span'' (Some [''field-content'', ''x'']) [] [] # [] \<and>
   find_name_class (Tag ''div'' (Some [''paper-author'']) []
                      [NavigableString ''By '', Tag ''span'' (Some [''field-content'', ''x'']) [] []])
     ''span'' ''field-content'' = Some (Tag ''span'' (Some [''field-content'', ''x'']) [] []) \<and>
   descendants (Tag ''div'' (Some [''paper-author'']) []
                  [Tag ''span'' (Some [''field-content-x'']) [] []])
     = [Tag ''span'' (Some [''field-content-x'']) [] []] \<and>
   find_name_class (Tag ''div'' (Some [''paper-author'']) []
                      [Tag ''span'' (Some [''field-content-x'']) [] []])
     ''span'' ''field-content'' = None"
proof -
  note m = marker_lookups
  let ?da = "Tag ''div'' (Some [''views-field'', ''views-field-field-paper-author'']) []
               [span_field ''A. One, B. Two'']"
  let ?dt = "Tag ''div'' (Some [''views-field'', ''views-field-field-paper-topics'']) []
               [span_field ''Economics'']"
  let ?db = "Tag ''div'' (Some [''views-field'', ''views-field-field-paper-abstract'']) []
               [NavigableString ''  An abstract.  '']"
  let ?dp = "Tag ''div'' (Some [''views-field'', ''views-field-field-paper-pubdate'']) []
               [span_field ''5 May 2021'']"
  let ?ul = "Tag ''ul'' (Some [''search-results'']) [] []"
  let ?sp = "Tag ''span'' (Some [''field-content'', ''x'']) [] []"
  let ?d1 = "Tag ''div'' (Some [''paper-author'']) [] [NavigableString ''By '', ?sp]"
  let ?d2 = "Tag ''div'' (Some [''paper-author'']) []
               [Tag ''span'' (Some [''field-content-x'']) [] []]"
  have a1: "?da \<in> set (descendants my_paper)"
    and t1: "?dt \<in> set (descendants my_paper)"
    and b1: "?db \<in> set (descendants my_paper)"
    and p1: "?dp \<in> set (descendants my_paper)"
    by (simp_all add: my_paper_def listing_def div_field_def)
  have a2: "''views-field-field-'' @ ''paper-author'' @ ''''
              \<in> set [''views-field'', ''views-field-field-paper-author'']"
    and t2: "''views-field-field-'' @ ''paper-topics'' @ ''''
              \<in> set [''views-field'', ''views-field-field-paper-topics'']"
    and b2: "''views-field-field-'' @ ''paper-abstract'' @ ''''
              \<in> set [''views-field'', ''views-field-field-paper-abstract'']"
    and p2: "''views-field-field-'' @ ''paper-pubdate'' @ ''''
              \<in> set [''views-field'', ''views-field-field-paper-pubdate'']"
    by simp_all
  from m [THEN conjunct1, THEN mp, OF conjI [OF a1 a2]]
  have c1: "?da \<in> set (select_div my_paper ''paper-author'')" .
  from m [THEN conjunct2, THEN conjunct1, THEN mp, OF c1]
  have c2: "\<exists>toks as ks p q. ?da = Tag ''div'' (Some toks) as ks \<and>
              join '' '' toks = p @ ''paper-author'' @ q" by (rule conjunct2)
  from m [THEN conjunct2, THEN conjunct2, THEN conjunct1, THEN mp, OF conjI [OF a1 a2]]
  have c3: "get_author_list my_paper \<noteq> Inl IndexError" by (rule conjunct2)
  from m [THEN conjunct2, THEN conjunct2, THEN conjunct2, THEN conjunct1, THEN mp,
          OF conjI [OF t1 t2]]
  have c4: "get_topics_list my_paper \<noteq> Inl IndexError" by (rule conjunct2)
  from m [THEN conjunct2, THEN conjunct2, THEN conjunct2, THEN conjunct2, THEN conjunct1,
          THEN mp, OF conjI [OF b1 b2]]
  have c5: "\<exists>d ds. select_div my_paper ''paper-abstract'' = d # ds \<and>
              get_abstract my_paper = Inr (strip (text_of d))" .
  from m [THEN conjunct2, THEN conjunct2, THEN conjunct2, THEN conjunct2, THEN conjunct2,
          THEN conjunct1, THEN mp, OF conjI [OF p1 p2]]
  have c6: "get_date my_paper \<noteq> Inl IndexError" by (rule conjunct2)
  note e = descendants_empty_page
  have e2: "?ul = Tag ''ul'' (Some [''search-results'']) [] []" by simp
  have e3: "''search-results'' \<in> set [''search-results''] \<or>
            join '' '' [''search-results''] = ''search-results''" by simp
  have e4: "\<forall>n' cs' as' ks'. Tag n' (Some cs') as' ks'
              \<in> set [Tag ''html'' None [] [Tag ''body'' None [] [?ul]], Tag ''body'' None [] [?ul]]
              \<longrightarrow> ''search-results'' \<notin> set cs' \<and> join '' '' cs' \<noteq> ''search-results''"
    by simp
  from m [THEN conjunct2, THEN conjunct2, THEN conjunct2, THEN conjunct2, THEN conjunct2,
          THEN conjunct2, THEN conjunct1, THEN mp, OF conjI [OF e conjI [OF e2 conjI [OF e3 e4]]]]
  have c7: "find_class (results_page ''search-results'' []) ''search-results'' = Some ?ul" .
  from m [THEN conjunct2, THEN conjunct2, THEN conjunct2, THEN conjunct2, THEN conjunct2,
          THEN conjunct2, THEN conjunct2, THEN conjunct2, THEN conjunct1, THEN mp, OF c7]
  have c9: "extract_raw_search_results (results_page ''search-results'' [])
              = Inr (find_all ?ul ''li'')" .
  from m [THEN conjunct2, THEN conjunct2, THEN conjunct2, THEN conjunct2, THEN conjunct2,
          THEN conjunct2, THEN conjunct2, THEN conjunct1, THEN mp, OF c7]
  have c8: "\<exists>before after n cs as ks.
              descendants (results_page ''search-results'' []) = before @ ?ul # after \<and>
              ?ul = Tag n (Some cs) as ks \<and>
              (''search-results'' \<in> set cs \<or> join '' '' cs = ''search-results'') \<and>
              (\<forall>n' cs' as' ks'. Tag n' (Some cs') as' ks' \<in> set before \<longrightarrow>
                 ''search-results'' \<notin> set cs' \<and> join '' '' cs' \<noteq> ''search-results'')" .
  have ne: "''search-results-list'' \<noteq> ''search-results''" by simp
  have u: "\<forall>n cs as ks.
             Tag n (Some cs) as ks \<in> set (descendants (results_page ''search-results-list'' []))
             \<longrightarrow> ''search-results'' \<notin> set cs \<and> join '' '' cs \<noteq> ''search-results''"
    unfolding descendants_unmarked_page using ne by auto
  from m [THEN conjunct2, THEN conjunct2, THEN conjunct2, THEN conjunct2, THEN conjunct2,
          THEN conjunct2, THEN conjunct2, THEN conjunct2, THEN conjunct2, THEN conjunct1,
          THEN mp, OF u]
  have c10: "extract_raw_search_results (results_page ''search-results-list'' [])
               = Inl (AttributeError ''find_all'')" .
  have s1: "descendants ?d1 = [NavigableString ''By ''] @ ?sp # []" by simp
  have s2: "?sp = Tag ''span'' (Some [''field-content'', ''x'']) [] []" by simp
  have s3: "''field-content'' \<in> set [''field-content'', ''x''] \<or>
            join '' '' [''field-content'', ''x''] = ''field-content''" by simp
  have s4: "\<forall>n' cs' as' ks'. Tag n' (Some cs') as' ks' \<in> set [NavigableString ''By '']
              \<longrightarrow> n' \<noteq> ''span'' \<or>
                  (''field-content'' \<notin> set cs' \<and> join '' '' cs' \<noteq> ''field-content'')"
    by simp
  from m [THEN conjunct2, THEN conjunct2, THEN conjunct2, THEN conjunct2, THEN conjunct2,
          THEN conjunct2, THEN conjunct2, THEN conjunct2, THEN conjunct2, THEN conjunct2,
          THEN conjunct1, THEN mp, OF conjI [OF s1 conjI [OF s2 conjI [OF s3 s4]]]]
  have c11: "find_name_class ?d1 ''span'' ''field-content'' = Some ?sp" .
  from m [THEN conjunct2, THEN conjunct2, THEN conjunct2, THEN conjunct2, THEN conjunct2,
          THEN conjunct2, THEN conjunct2, THEN conjunct2, THEN conjunct2, THEN conjunct2,
          THEN conjunct2, THEN conjunct1, THEN mp, OF c11]
  have c12: "\<exists>before after cs as ks.
               descendants ?d1 = before @ ?sp # after \<and> ?sp = Tag ''span'' (Some cs) as ks \<and>
               (''field-content'' \<in> set cs \<or> join '' '' cs = ''field-content'') \<and>
               (\<forall>n' cs' as' ks'. Tag n' (Some cs') as' ks' \<in> set before \<longrightarrow>
                  n' \<noteq> ''span'' \<or>
                  (''field-content'' \<notin> set cs' \<and> join '' '' cs' \<noteq> ''field-content''))" .
  have x1: "descendants ?d2 = [Tag ''span'' (Some [''field-content-x'']) [] []]" by simp
  have nx: "''field-content-x'' \<noteq> ''field-content''" by simp
  have x2: "\<forall>n cs as ks. Tag n (Some cs) as ks \<in> set (descendants ?d2) \<longrightarrow>
              n \<noteq> ''span'' \<or>
              (''field-content'' \<notin> set cs \<and> join '' '' cs \<noteq> ''field-content'')"
    unfolding x1 using nx by auto
  from m [THEN conjunct2, THEN conjunct2, THEN conjunct2, THEN conjunct2, THEN conjunct2,
          THEN conjunct2, THEN conjunct2, THEN conjunct2, THEN conjunct2, THEN conjunct2,
          THEN conjunct2, THEN conjunct2, THEN mp, OF x2]
  have c13: "find_name_class ?d2 ''span'' ''field-content'' = None" .
  from a1 a2 c1 c2 c3 t1 t2 c4 b1 b2 c5 p1 p2 c6 e c7 c9 descendants_unmarked_page c10
    s1 c11 x1 c13
  show ?thesis by (intro conjI)
qed

text \<open>
  The claim fails for the results container: a list whose class attribute contains
  \<open>search-results\<close> only inside the longer token \<open>search-results-list\<close> is not found.
\<close>

theorem marker_lookups_counterexample:
  "contains ''search-results-list'' ''search-results'' \<and>
   Tag ''ul'' (Some [''search-results-list'']) [] [my_paper]
     \<in> set (descendants (results_page ''search-results-list'' [my_paper])) \<and>
   find_class (results_page ''search-results-list'' [my_paper]) ''search-results'' = None \<and>
   extract_raw_search_results (results_page ''search-results-list'' [my_paper])
     = Inl (AttributeError ''find_all'')"
  by code_simp

section \<open>The pipeline\<close>

lemma scrape_loop_Inr:
  "scrape_loop rs acc = Inr out \<Longrightarrow>
   \<exists>ps. out = acc @ ps \<and> map convert_raw_paper_to_dict rs = map Inr ps"
proof (induction rs arbitrary: acc)
  case Nil
  then show ?case by simp
next
  case (Cons r rs)
  then obtain p where p: "convert_raw_paper_to_dict r = Inr p"
    and rest: "scrape_loop rs (acc @ [p]) = Inr out"
    by (auto split: sum.splits)
  from Cons.IH [OF rest] obtain ps where "out = (acc @ [p]) @ ps"
    and "map convert_raw_paper_to_dict rs = map Inr ps" by blast
  then have "out = acc @ (p # ps) \<and> map convert_raw_paper_to_dict (r # rs) = map Inr (p # ps)"
    using p by simp
  then show ?case by blast
qed

lemma scrape_loop_Inl:
  "n \<in> set rs \<Longrightarrow> convert_raw_paper_to_dict n = Inl e0 \<Longrightarrow>
   \<exists>i e. i < length rs \<and> convert_raw_paper_to_dict (rs ! i) = Inl e \<and>
         (\<forall>j<i. \<exists>p. convert_raw_paper_to_dict (rs ! j) = Inr p) \<and>
         scrape_loop rs acc = Inl e"
proof (induction rs arbitrary: acc)
  case Nil
  then show ?case by simp
next
  case (Cons r rs)
  show ?case
  proof (cases "convert_raw_paper_to_dict r")
    case (Inl e)
    then have "0 < length (r # rs) \<and> convert_raw_paper_to_dict ((r # rs) ! 0) = Inl e \<and>
         (\<forall>j<0. \<exists>p. convert_raw_paper_to_dict ((r # rs) ! j) = Inr p) \<and>
         scrape_loop (r # rs) acc = Inl e" by simp
    then show ?thesis by blast
  next
    case (Inr p)
    with Cons.prems have "n \<in> set rs" by auto
    from Cons.IH [OF this Cons.prems(2), of "acc @ [p]"] obtain i e where
      i: "i < length rs" "convert_raw_paper_to_dict (rs ! i) = Inl e"
         "\<forall>j<i. \<exists>p. convert_raw_paper_to_dict (rs ! j) = Inr p"
         "scrape_loop rs (acc @ [p]) = Inl e" by blast
    have "\<forall>j<Suc i. \<exists>p. convert_raw_paper_to_dict ((r # rs) ! j) = Inr p"
    proof (intro allI impI)
      fix j assume "j < Suc i"
      then show "\<exists>p. convert_raw_paper_to_dict ((r # rs) ! j) = Inr p"
        using Inr i(3) by (cases j) auto
    qed
    with i Inr have "Suc i < length (r # rs) \<and>
         convert_raw_paper_to_dict ((r # rs) ! Suc i) = Inl e \<and>
         (\<forall>j<Suc i. \<exists>p. convert_raw_paper_to_dict ((r # rs) ! j) = Inr p) \<and>
         scrape_loop (r # rs) acc = Inl e" by simp
    then show ?thesis by blast
  qed
qed

lemma scrape_loop_Nil_iff: "scrape_loop rs [] = Inr [] \<longleftrightarrow> rs = []"
proof
  assume "scrape_loop rs [] = Inr []"
  from scrape_loop_Inr [OF this] show "rs = []" by auto
qed simp

lemma scrape_two_papers:
  "scrape (\<lambda>_. Inr (results_page ''search-results'' [my_paper, other_paper])) ''u'' =
     Inr [\<lparr>title = ''My Paper'', url = ''https://www.nla.gov.au/pub/123'',
            authors = [''A. One'', ''B. Two''], date = ''2021-05-05'',
            abstract = ''An abstract.'', topics = [''Economics'']\<rparr>,
          \<lparr>title = ''Other'', url = ''https://www.nla.gov.auhttps://example.org/x'',
            authors = [''A'', '''', ''B''], date = ''1999-12-31'',
            abstract = ''Text'', topics = [''Jane Doe'', ''John Smith'']\<rparr>]"
  by code_simp

text \<open>
  C3. On a downloaded page, \<open>scrape\<close> returns the empty list exactly when the results
  container is found and holds no \<open>li\<close>; when no results container is found it fails,
  with the AttributeError of calling \<open>find_all\<close> on \<open>None\<close>, and returns no list.
\<close>

theorem scrape_empty_iff_empty_container:
  assumes "collect_soup u = Inr page"
  shows "(scrape collect_soup u = Inr [] \<longleftrightarrow>
            (\<exists>results. find_class page ''search-results'' = Some results \<and>
                       find_all results ''li'' = [])) \<and>
         (find_class page ''search-results'' = None \<longrightarrow>
            scrape collect_soup u = Inl (AttributeError ''find_all''))"
  using assms
  by (auto simp: scrape_def extract_raw_search_results_def scrape_loop_Nil_iff
           split: option.splits)

theorem scrape_empty_iff_empty_container_witness:
  "find_class (results_page ''search-results'' []) ''search-results''
     = Some (Tag ''ul'' (Some [''search-results'']) [] []) \<and>
   find_all (Tag ''ul'' (Some [''search-results'']) [] []) ''li'' = [] \<and>
   scrape (\<lambda>_. Inr (results_page ''search-results'' [])) ''u'' = Inr [] \<and>
   find_class (results_page ''other'' [my_paper]) ''search-results'' = None \<and>
   scrape (\<lambda>_. Inr (results_page ''other'' [my_paper])) ''u'' = Inl (AttributeError ''find_all'')"
proof -
  have f: "find_class (results_page ''search-results'' []) ''search-results''
             = Some (Tag ''ul'' (Some [''search-results'']) [] [])"
    and l: "find_all (Tag ''ul'' (Some [''search-results'']) [] []) ''li'' = []"
    and n: "find_class (results_page ''other'' [my_paper]) ''search-results'' = None"
    by code_simp+
  have "scrape (\<lambda>_. Inr (results_page ''search-results'' [])) ''u'' = Inr []"
    using scrape_empty_iff_empty_container
      [of "\<lambda>_. Inr (results_page ''search-results'' [])" "''u''" "results_page ''search-results'' []"]
      f l by simp
  moreover have "scrape (\<lambda>_. Inr (results_page ''other'' [my_paper])) ''u''
                   = Inl (AttributeError ''find_all'')"
    using scrape_empty_iff_empty_container
      [of "\<lambda>_. Inr (results_page ''other'' [my_paper])" "''u''" "results_page ''other'' [my_paper]"]
      n by simp
  ultimately show ?thesis using f l n by simp
qed

text \<open>
  C4. When \<open>scrape\<close> succeeds on a downloaded page, its result has exactly one record for
  each \<open>li\<close> of the results container, in document order: the records are, position by
  position, the conversions of the nodes. Nothing is sorted, dropped or merged.
\<close>

theorem scrape_one_record_per_listing_in_order:
  assumes "collect_soup u = Inr page" and "scrape collect_soup u = Inr recs"
  shows "\<exists>results. find_class page ''search-results'' = Some results \<and>
           length recs = length (find_all results ''li'') \<and>
           map convert_raw_paper_to_dict (find_all results ''li'') = map Inr recs"
proof -
  from assms obtain results where r: "find_class page ''search-results'' = Some results"
    and l: "scrape_loop (find_all results ''li'') [] = Inr recs"
    by (auto simp: scrape_def extract_raw_search_results_def split: option.splits)
  from scrape_loop_Inr [OF l]
  have m: "map convert_raw_paper_to_dict (find_all results ''li'') = map Inr recs" by simp
  then have "length (find_all results ''li'') = length recs"
    by (metis length_map)
  with r m show ?thesis by simp
qed

theorem scrape_one_record_per_listing_in_order_witness:
  "scrape (\<lambda>_. Inr (results_page ''search-results'' [my_paper, other_paper])) ''u'' =
     Inr [\<lparr>title = ''My Paper'', url = ''https://www.nla.gov.au/pub/123'',
            authors = [''A. One'', ''B. Two''], date = ''2021-05-05'',
            abstract = ''An abstract.'', topics = [''Economics'']\<rparr>,
          \<lparr>title = ''Other'', url = ''https://www.nla.gov.auhttps://example.org/x'',
            authors = [''A'', '''', ''B''], date = ''1999-12-31'',
            abstract = ''Text'', topics = [''Jane Doe'', ''John Smith'']\<rparr>] \<and>
   (\<exists>results.
      find_class (results_page ''search-results'' [my_paper, other_paper]) ''search-results''
        = Some results \<and>
      length [\<lparr>title = ''My Paper'', url = ''https://www.nla.gov.au/pub/123'',
                authors = [''A. One'', ''B. Two''], date = ''2021-05-05'',
                abstract = ''An abstract.'', topics = [''Economics'']\<rparr>,
              \<lparr>title = ''Other'', url = ''https://www.nla.gov.auhttps://example.org/x'',
                authors = [''A'', '''', ''B''], date = ''1999-12-31'',
                abstract = ''Text'', topics = [''Jane Doe'', ''John Smith'']\<rparr>]
        = length (find_all results ''li'') \<and>
      map convert_raw_paper_to_dict (find_all results ''li'') =
        map Inr [\<lparr>title = ''My Paper'', url = ''https://www.nla.gov.au/pub/123'',
                   authors = [''A. One'', ''B. Two''], date = ''2021-05-05'',
                   abstract = ''An abstract.'', topics = [''Economics'']\<rparr>,
                 \<lparr>title = ''Other'', url = ''https://www.nla.gov.auhttps://example.org/x'',
                   authors = [''A'', '''', ''B''], date = ''1999-12-31'',
                   abstract = ''Text'', topics = [''Jane Doe'', ''John Smith'']\<rparr>])"
proof -
  have c: "(\<lambda>_. Inr (results_page ''search-results'' [my_paper, other_paper])) ''u''
             = (Inr (results_page ''search-results'' [my_paper, other_paper]) :: error + node)"
    by simp
  from scrape_one_record_per_listing_in_order
    [of "\<lambda>_. Inr (results_page ''search-results'' [my_paper, other_paper])" "''u''"
        "results_page ''search-results'' [my_paper, other_paper]", OF c scrape_two_papers]
    scrape_two_papers
  show ?thesis by simp
qed

text \<open>
  C5. When the conversion of some listing node fails, \<open>scrape\<close> fails as a whole, with the
  error of the first node (in document order) whose conversion fails: no list of records
  is returned, and no node is skipped.
\<close>

theorem scrape_aborts_with_first_error:
  assumes "collect_soup u = Inr page" and "extract_raw_search_results page = Inr nodes"
    and "n \<in> set nodes" and "convert_raw_paper_to_dict n = Inl e0"
  shows "\<exists>i e. i < length nodes \<and> convert_raw_paper_to_dict (nodes ! i) = Inl e \<and>
           (\<forall>j<i. \<exists>p. convert_raw_paper_to_dict (nodes ! j) = Inr p) \<and>
           scrape collect_soup u = Inl e"
  using scrape_loop_Inl [OF assms(3,4), of "[]"] assms(1,2) by (simp add: scrape_def)

theorem scrape_aborts_with_first_error_witness:
  "extract_raw_search_results (results_page ''search-results'' [my_paper, undated_paper, other_paper])
     = Inr [my_paper, undated_paper, other_paper] \<and>
   undated_paper \<in> set [my_paper, undated_paper, other_paper] \<and>
   convert_raw_paper_to_dict undated_paper = Inl ValueError \<and>
   scrape (\<lambda>_. Inr (results_page ''search-results'' [my_paper, undated_paper, other_paper])) ''u''
     = Inl ValueError \<and>
   (\<exists>i e. i < length [my_paper, undated_paper, other_paper] \<and>
      convert_raw_paper_to_dict ([my_paper, undated_paper, other_paper] ! i) = Inl e \<and>
      (\<forall>j<i. \<exists>p. convert_raw_paper_to_dict ([my_paper, undated_paper, other_paper] ! j) = Inr p) \<and>
      scrape (\<lambda>_. Inr (results_page ''search-results'' [my_paper, undated_paper, other_paper])) ''u''
        = Inl e)"
proof -
  let ?page = "results_page ''search-results'' [my_paper, undated_paper, other_paper]"
  have c: "(\<lambda>_. Inr ?page) ''u'' = (Inr ?page :: error + node)" by simp
  have x: "extract_raw_search_results ?page = Inr [my_paper, undated_paper, other_paper]"
    by code_simp
  have m: "undated_paper \<in> set [my_paper, undated_paper, other_paper]" by simp
  have f: "convert_raw_paper_to_dict undated_paper = Inl ValueError" by code_simp
  have s: "scrape (\<lambda>_. Inr ?page) ''u'' = Inl ValueError" by code_simp
  from scrape_aborts_with_first_error [of "\<lambda>_. Inr ?page" "''u''" ?page, OF c x m f] x m f s
  show ?thesis by simp
qed

text \<open>
  C10. The \<open>url\<close> of a record is \<open>https://www.nla.gov.au\<close> followed by the \<open>href\<close> of the
  first link in the first heading, whatever that \<open>href\<close> is: nothing checks that it is a
  relative link.
\<close>

theorem url_is_origin_then_href:
  assumes "find_name item ''h3'' = Some h3" and "find_name h3 ''a'' = Some a"
    and "get_attr a ''href'' = Some href" and "convert_raw_paper_to_dict item = Inr p"
  shows "url p = ''https://www.nla.gov.au'' @ href"
  using assms by (auto simp: convert_raw_paper_to_dict_def split: sum.splits)

theorem url_is_origin_then_href_witness:
  "find_name other_paper ''h3''
     = Some (Tag ''h3'' None []
               [Tag ''a'' None [(''href'', ''https://example.org/x'')] [NavigableString ''Other'']]) \<and>
   find_name (Tag ''h3'' None []
                [Tag ''a'' None [(''href'', ''https://example.org/x'')] [NavigableString ''Other'']])
     ''a'' = Some (Tag ''a'' None [(''href'', ''https://example.org/x'')] [NavigableString ''Other'']) \<and>
   get_attr (Tag ''a'' None [(''href'', ''https://example.org/x'')] [NavigableString ''Other''])
     ''href'' = Some ''https://example.org/x'' \<and>
   convert_raw_paper_to_dict other_paper =
     Inr \<lparr>title = ''Other'', url = ''https://www.nla.gov.auhttps://example.org/x'',
           authors = [''A'', '''', ''B''], date = ''1999-12-31'',
           abstract = ''Text'', topics = [''Jane Doe'', ''John Smith'']\<rparr> \<and>
   url \<lparr>title = ''Other'', url = ''https://www.nla.gov.auhttps://example.org/x'',
         authors = [''A'', '''', ''B''], date = ''1999-12-31'',
         abstract = ''Text'', topics = [''Jane Doe'', ''John Smith'']\<rparr>
     = ''https://www.nla.gov.au'' @ ''https://example.org/x''"
proof -
  let ?a = "Tag ''a'' None [(''href'', ''https://example.org/x'')] [NavigableString ''Other'']"
  have h: "find_name other_paper ''h3'' = Some (Tag ''h3'' None [] [?a])"
    and a: "find_name (Tag ''h3'' None [] [?a]) ''a'' = Some ?a"
    and g: "get_attr ?a ''href'' = Some ''https://example.org/x''"
    by code_simp+
  have c: "convert_raw_paper_to_dict other_paper =
     Inr \<lparr>title = ''Other'', url = ''https://www.nla.gov.auhttps://example.org/x'',
           authors = [''A'', '''', ''B''], date = ''1999-12-31'',
           abstract = ''Text'', topics = [''Jane Doe'', ''John Smith'']\<rparr>"
    by code_simp
  from url_is_origin_then_href [OF h a g c] h a g c show ?thesis by simp
qed

section \<open>The output path\<close>

lemma digits_of_not_Nil: "digits_of n \<noteq> []"
  by (subst digits_of.simps) simp

lemma digit_chr_digit: "d < 10 \<Longrightarrow> digit_chr d \<in> set ''0123456789''"
proof -
  assume "d < 10"
  then have "d \<in> {0,1,2,3,4,5,6,7,8,9}" by auto
  then show ?thesis by (auto simp: digit_chr_def)
qed

lemma digits_of_digits: "set (digits_of n) \<subseteq> set ''0123456789''"
proof (induction n rule: digits_of.induct)
  case (1 n)
  show ?case
  proof (cases "n < 10")
    case True
    then show ?thesis using digit_chr_digit [of n] by (subst digits_of.simps) simp
  next
    case False
    have "n mod 10 < 10" by simp
    from digit_chr_digit [OF this] 1 [OF False] False show ?thesis
      by (subst digits_of.simps) simp
  qed
qed

lemma zero_padded_digits: "set (zero_padded w n) \<subseteq> set ''0123456789''"
  using digits_of_digits [of n] by (auto simp: zero_padded_def)

lemma zero_padded_not_Nil: "zero_padded w n \<noteq> []"
  by (simp add: zero_padded_def digits_of_not_Nil)

lemma strftime_no_slash: "\<not> startswith (strftime now @ rest) ''/''"
proof -
  obtain c cs where z: "zero_padded 4 (dt_year now) = c # cs"
    using zero_padded_not_Nil by (cases "zero_padded 4 (dt_year now)") auto
  then have "c \<in> set ''0123456789''" using zero_padded_digits [of 4 "dt_year now"] by auto
  then have "c \<noteq> CHR ''/''" by auto
  then show ?thesis by (simp add: strftime_def z)
qed

text \<open>
  C7 (as the code has it). What decides is the suffix of the path, not what the path
  names. A path that does not end in \<open>.json\<close> is taken for a directory: the file written
  is that path, a \<open>/\<close> unless the path ends with one, the timestamp and \<open>.json\<close>. A path that
  ends in \<open>.json\<close> is written to as it is.
\<close>

theorem output_path_by_suffix:
  "(\<not> endswith p ''.json'' \<longrightarrow>
      main_outpath now p = p @ (if p = [] \<or> endswith p ''/'' then [] else ''/'')
                             @ strftime now @ ''.json'' \<and>
      add_filename_default now p = main_outpath now p) \<and>
   (endswith q ''.json'' \<longrightarrow> main_outpath now q = q \<and> add_filename_default now q = q)"
  by (simp add: main_outpath_def add_filename_default_def os_path_join_def strftime_no_slash)

theorem output_path_by_suffix_witness:
  "\<not> endswith ''/tmp/papers'' ''.json'' \<and>
   main_outpath \<lparr>dt_year = 2021, dt_month = 5, dt_day = 5, dt_hour = 10, dt_minute = 20,
                  dt_second = 30\<rparr> ''/tmp/papers'' = ''/tmp/papers/2021-05-05-10-20-30.json'' \<and>
   endswith ''/tmp/out.json'' ''.json'' \<and>
   main_outpath \<lparr>dt_year = 2021, dt_month = 5, dt_day = 5, dt_hour = 10, dt_minute = 20,
                  dt_second = 30\<rparr> ''/tmp/out.json'' = ''/tmp/out.json''"
proof -
  let ?now = "\<lparr>dt_year = 2021, dt_month = 5, dt_day = 5, dt_hour = 10, dt_minute = 20,
               dt_second = 30\<rparr>"
  have n: "\<not> endswith ''/tmp/papers'' ''.json''" and y: "endswith ''/tmp/out.json'' ''.json''"
    and s: "\<not> endswith ''/tmp/papers'' ''/''"
    by (simp_all add: endswith_def)
  have t: "strftime ?now = ''2021-05-05-10-20-30''" by code_simp
  from output_path_by_suffix [of "''/tmp/papers''" ?now "''/tmp/out.json''"] n y s t
  show ?thesis by simp
qed

text \<open>
  The claim fails for an explicit file path with another suffix: it is not used as it
  is, the timestamped name is appended to it as if it were a directory.
\<close>

theorem output_path_by_suffix_counterexample:
  "main_outpath \<lparr>dt_year = 2021, dt_month = 5, dt_day = 5, dt_hour = 10, dt_minute = 20,
                  dt_second = 30\<rparr> ''/tmp/papers.txt''
     = ''/tmp/papers.txt/2021-05-05-10-20-30.json''"
  by code_simp

end
